theory Spec2Isabelle
  imports Main
begin

section \<open>The blob server: a three-tier content-addressed cache\<close>

text \<open>
  The blob server answers \<open>GET /<hash>\<close> from a local cache directory, falling back to a
  bucket of a remote object store and then to an upstream HTTP source. This theory embeds
  its Go functions as state-passing HOL functions and proves properties of them.

  Everything outside the process (the file system, the object store, the upstream HTTP
  server) is part of the state or of an oracle \<open>env\<close> that fixes, for every moment, which
  calls fail and what the remote side answers. Goroutines are not modelled: a function
  runs from call to return without interleaving, and a download that another goroutine
  has in flight is a state whose \<open>jobs\<close> map already holds the hash. Log output is not
  modelled.
\<close>

subsection \<open>Errors\<close>

text \<open>
  Go errors form chains. \<open>Errorf f args\<close> is \<open>fmt.Errorf(f, args...)\<close> without \<open>%w\<close>,
  \<open>Wrapf f args e\<close> is \<open>fmt.Errorf(f, args..., e)\<close> whose format ends in \<open>%w\<close>, and
  \<open>PathError op path e\<close> is \<open>*fs.PathError\<close>. The formats are kept as written in the
  source; the arguments are kept unformatted.
\<close>

type_synonym bytes = string
type_synonym path = "string list"

datatype err =
    ErrNotExist
  | ErrExist
  | ErrPermission
  | ErrObjectNotExist
  | Other string
  | Errorf string "string list"
  | Wrapf string "string list" err
  | PathError string path err

text \<open>\<open>errors.Is\<close>: the target is found anywhere along the chain of wrapped errors.\<close>

fun errors_Is :: "err \<Rightarrow> err \<Rightarrow> bool" where
  "errors_Is (Wrapf f as e) t = (Wrapf f as e = t \<or> errors_Is e t)"
| "errors_Is (PathError op p e) t = (PathError op p e = t \<or> errors_Is e t)"
| "errors_Is e t = (e = t)"

text \<open>
  \<open>os.IsNotExist\<close> predates error wrapping: it looks through a \<open>PathError\<close> only, not
  through \<open>fmt.Errorf\<close> chains.
\<close>

fun underlyingError :: "err \<Rightarrow> err" where
  "underlyingError (PathError op p e) = e"
| "underlyingError e = e"

definition os_IsNotExist :: "err \<Rightarrow> bool" where
  "os_IsNotExist e = (underlyingError e = ErrNotExist)"

subsection \<open>Strings and paths\<close>

text \<open>
  \<open>strings.Split(s, sep)\<close> for a one-character separator: the pieces between the
  separators, so one piece more than there are separators, and \<open>[""]\<close> for the empty string.
\<close>

fun strings_Split :: "string \<Rightarrow> char \<Rightarrow> string list" where
  "strings_Split [] sep = [[]]"
| "strings_Split (x # xs) sep =
     (if x = sep then [] # strings_Split xs sep
      else (let r = strings_Split xs sep in (x # hd r) # tl r))"




text \<open>
  A path is the list of the components of a cleaned absolute path, so \<open>/var/cache/ab\<close> is
  \<open>[''var'', ''cache'', ''ab'']\<close> and the root is \<open>[]\<close>. \<open>filepath.Join(base, elem)\<close>
  cleans \<open>base/elem\<close>: empty components and \<open>.\<close> vanish, \<open>..\<close> removes the component
  before it. \<open>filepath.Dir\<close> drops the last component.
\<close>

definition clean_step :: "path \<Rightarrow> string \<Rightarrow> path" where
  "clean_step p c =
     (if c = [] \<or> c = ''.'' then p else if c = ''..'' then butlast p else p @ [c])"

definition filepath_Join :: "path \<Rightarrow> string \<Rightarrow> path" where
  "filepath_Join base elem = foldl clean_step base (strings_Split elem CHR ''/'')"

definition filepath_Dir :: "path \<Rightarrow> path" where
  "filepath_Dir p = butlast p"

subsection \<open>The registry of known blobs\<close>

record knownBlob =
  Hash :: string
  URL :: string

definition knownBlobs :: "knownBlob list" where
  "knownBlobs =
    [\<lparr>Hash = ''77ebb031649ac7a16b89b4078feb197d56a61941b703a980233069a2670c811b'',
      URL = ''https://huggingface.co/unsloth/Llama-3.3-70B-Instruct-GGUF/resolve/main/Llama-3.3-70B-Instruct-Q6_K/Llama-3.3-70B-Instruct-Q6_K-00001-of-00002.gguf''\<rparr>,
     \<lparr>Hash = ''f50428a8c9912e949f5273174e66c9febdc7cd21617595de2dc0e5c9df536434'',
      URL = ''https://huggingface.co/unsloth/Llama-3.3-70B-Instruct-GGUF/resolve/main/Llama-3.3-70B-Instruct-Q6_K/Llama-3.3-70B-Instruct-Q6_K-00002-of-00002.gguf''\<rparr>,
     \<lparr>Hash = ''ecb6908345e7a10be94511eae715b6b6eadbc518b7c1dd0fd5ba8816b62b4dc9'',
      URL = ''https://huggingface.co/unsloth/gemma-3-12b-it-GGUF/resolve/main/gemma-3-12b-it-Q4_K_M.gguf''\<rparr>]"

text \<open>
  \<open>SourceForBlob\<close> runs \<open>for _, knownBlob := range knownBlobs\<close> to the end, overwriting
  \<open>source\<close> at every entry whose hash matches; \<open>SourceForBlob_loop\<close> is that loop over
  any registry, with \<open>source\<close> as the accumulator.
\<close>

fun SourceForBlob_loop :: "knownBlob list \<Rightarrow> string \<Rightarrow> string \<Rightarrow> string" where
  "SourceForBlob_loop [] hash source = source"
| "SourceForBlob_loop (kb # kbs) hash source =
     SourceForBlob_loop kbs hash (if Hash kb = hash then URL kb else source)"

definition SourceForBlob_in :: "knownBlob list \<Rightarrow> string \<Rightarrow> err + string" where
  "SourceForBlob_in kbs hash =
     (let source = SourceForBlob_loop kbs hash [] in
      if source = [] then Inl (Errorf ''blob %q not known'' [hash]) else Inr source)"

definition SourceForBlob :: "string \<Rightarrow> err + string" where
  "SourceForBlob hash = SourceForBlob_in knownBlobs hash"

subsection \<open>The world outside the process\<close>

text \<open>
  Every call that leaves the process is recorded in \<open>trace\<close>, in order. The moment of a
  call is the length of the trace before it, and the oracle is asked with that moment, so
  the same call may fail once and succeed later.
\<close>

datatype call =
    OsOpen path
  | OsCreateTemp path string
  | IoCopy path
  | FileClose path
  | OsRename path path
  | OsRemove path
  | NewClient
  | NewReader string
  | ObjAttrs string
  | GcsCopy string
  | GcsClose string
  | NewRequest string
  | HttpDo string
  | Sleep nat

record response =
  StatusCode :: nat
  Status :: string
  Body :: bytes

text \<open>
  \<open>fault t c\<close> is the error with which call \<open>c\<close> fails at moment \<open>t\<close>, if it fails;
  \<open>short t\<close> is how many bytes a failing copy at moment \<open>t\<close> had written;
  \<open>temp_suffix t\<close> is the random part of the name \<open>os.CreateTemp\<close> chooses at \<open>t\<close>;
  \<open>http t url\<close> is what the server at \<open>url\<close> answers to a GET at \<open>t\<close>;
  \<open>is_dir name\<close> tells whether the openable path \<open>name\<close> is a directory (the blob server
  creates and removes none, so this does not change).
\<close>

record env =
  fault :: "nat \<Rightarrow> call \<Rightarrow> err option"
  short :: "nat \<Rightarrow> nat"
  temp_suffix :: "nat \<Rightarrow> string"
  http :: "nat \<Rightarrow> string \<Rightarrow> response"
  is_dir :: "path \<Rightarrow> bool"

record downloadJob =
  Hash :: string
  DestinationPath :: path

text \<open>
  \<open>files\<close> is the local disk (the openable paths and the bytes read from each),
  \<open>objects\<close> the bucket, \<open>jobs\<close> the \<open>jobs\<close> map of the \<open>blobCache\<close>, the only field
  of it that changes.
\<close>

record state =
  files :: "path \<rightharpoonup> bytes"
  objects :: "string \<rightharpoonup> bytes"
  jobs :: "string \<rightharpoonup> downloadJob"
  trace :: "call list"

definition now :: "state \<Rightarrow> nat" where
  "now s = length (trace s)"

definition tick :: "call \<Rightarrow> state \<Rightarrow> state" where
  "tick c s = s\<lparr>trace := trace s @ [c]\<rparr>"

subsection \<open>File system calls\<close>

text \<open>An open file is represented by its name.\<close>

definition os_Open :: "env \<Rightarrow> path \<Rightarrow> state \<Rightarrow> (err + path) \<times> state" where
  "os_Open E name s =
     (case fault E (now s) (OsOpen name) of
        Some e \<Rightarrow> (Inl (PathError ''open'' name e), tick (OsOpen name) s)
      | None \<Rightarrow>
         (case files s name of
            None \<Rightarrow> (Inl (PathError ''open'' name ErrNotExist), tick (OsOpen name) s)
          | Some b \<Rightarrow> (Inr name, tick (OsOpen name) s)))"

text \<open>
  \<open>os.CreateTemp(dir, pattern)\<close> creates a new empty file \<open>dir/pattern<random>\<close>; it
  never opens an existing file, and gives up with \<open>ErrExist\<close> when it finds no free name.
\<close>

definition os_CreateTemp :: "env \<Rightarrow> path \<Rightarrow> string \<Rightarrow> state \<Rightarrow> (err + path) \<times> state" where
  "os_CreateTemp E dir pattern s =
     (let name = dir @ [pattern @ temp_suffix E (now s)] in
      case fault E (now s) (OsCreateTemp dir pattern) of
        Some e \<Rightarrow> (Inl (PathError ''open'' name e), tick (OsCreateTemp dir pattern) s)
      | None \<Rightarrow>
         (case files s name of
            Some b \<Rightarrow> (Inl (PathError ''createtemp'' name ErrExist), tick (OsCreateTemp dir pattern) s)
          | None \<Rightarrow> (Inr name, tick (OsCreateTemp dir pattern) (s\<lparr>files := (files s)(name \<mapsto> [])\<rparr>))))"

text \<open>
  \<open>io.Copy(dst, src)\<close> into a file: the number of bytes written and the first error of
  reading or writing. A failing copy leaves the bytes written so far in the file.
\<close>

definition io_Copy :: "env \<Rightarrow> path \<Rightarrow> bytes \<Rightarrow> state \<Rightarrow> (nat \<times> err option) \<times> state" where
  "io_Copy E dst src s =
     (case fault E (now s) (IoCopy dst) of
        Some e \<Rightarrow>
          (let k = min (short E (now s)) (length src) in
           ((k, Some e), tick (IoCopy dst) (s\<lparr>files := (files s)(dst \<mapsto> take k src)\<rparr>)))
      | None \<Rightarrow> ((length src, None), tick (IoCopy dst) (s\<lparr>files := (files s)(dst \<mapsto> src)\<rparr>)))"

definition file_Close :: "env \<Rightarrow> path \<Rightarrow> state \<Rightarrow> err option \<times> state" where
  "file_Close E name s = (fault E (now s) (FileClose name), tick (FileClose name) s)"

text \<open>\<open>os.Rename\<close> replaces the destination in one step, or fails and changes nothing.\<close>

definition os_Rename :: "env \<Rightarrow> path \<Rightarrow> path \<Rightarrow> state \<Rightarrow> err option \<times> state" where
  "os_Rename E oldpath newpath s =
     (case fault E (now s) (OsRename oldpath newpath) of
        Some e \<Rightarrow> (Some e, tick (OsRename oldpath newpath) s)
      | None \<Rightarrow>
         (case files s oldpath of
            None \<Rightarrow> (Some (PathError ''rename'' oldpath ErrNotExist), tick (OsRename oldpath newpath) s)
          | Some b \<Rightarrow>
              (None, tick (OsRename oldpath newpath)
                       (s\<lparr>files := ((files s)(oldpath := None))(newpath \<mapsto> b)\<rparr>))))"

definition os_Remove :: "env \<Rightarrow> path \<Rightarrow> state \<Rightarrow> err option \<times> state" where
  "os_Remove E name s =
     (case fault E (now s) (OsRemove name) of
        Some e \<Rightarrow> (Some (PathError ''remove'' name e), tick (OsRemove name) s)
      | None \<Rightarrow>
         (case files s name of
            None \<Rightarrow> (Some (PathError ''remove'' name ErrNotExist), tick (OsRemove name) s)
          | Some b \<Rightarrow> (None, tick (OsRemove name) (s\<lparr>files := (files s)(name := None)\<rparr>))))"

subsection \<open>\<open>writeToFile\<close>\<close>

text \<open>
  The two deferred functions of \<open>writeToFile\<close>: each makes its call and only logs the
  error, so the result of the call is dropped. They run in reverse order of their
  \<open>defer\<close> statements: the close first, the remove after it.
\<close>

definition deferred_close :: "env \<Rightarrow> path \<Rightarrow> state \<Rightarrow> state" where
  "deferred_close E tempFile s = snd (file_Close E tempFile s)"

definition deferred_remove :: "env \<Rightarrow> path \<Rightarrow> state \<Rightarrow> state" where
  "deferred_remove E tempFile s = snd (os_Remove E tempFile s)"

definition writeToFile :: "env \<Rightarrow> bytes \<Rightarrow> path \<Rightarrow> state \<Rightarrow> (nat \<times> err option) \<times> state" where
  "writeToFile E src destinationPath s =
     (case os_CreateTemp E (filepath_Dir destinationPath) ''download'' s of
        (Inl e, s1) \<Rightarrow> ((0, Some (Wrapf ''creating temp file: %w'' [] e)), s1)
      | (Inr tempFile, s1) \<Rightarrow>
         (case io_Copy E tempFile src s1 of
            ((n, Some e), s2) \<Rightarrow>
              ((n, Some (Wrapf ''downloading from upstream source: %w'' [] e)),
               deferred_remove E tempFile (deferred_close E tempFile s2))
          | ((n, None), s2) \<Rightarrow>
             (case file_Close E tempFile s2 of
                (Some e, s3) \<Rightarrow>
                  ((n, Some (Wrapf ''closing temp file: %w'' [] e)),
                   deferred_remove E tempFile (deferred_close E tempFile s3))
              | (None, s3) \<Rightarrow>
                 (case os_Rename E tempFile destinationPath s3 of
                    (Some e, s4) \<Rightarrow>
                      ((n, Some (Wrapf ''renaming temp file: %w'' [] e)),
                       deferred_remove E tempFile s4)
                  | (None, s4) \<Rightarrow> ((n, None), s4)))))"

subsection \<open>The object store\<close>

record gcsStore =
  Bucket :: string

text \<open>
  A client of the store is opened for every upload and download. The deferred
  \<open>client.Close()\<close>, \<open>r.Close()\<close> and \<open>src.Close()\<close> drop their results and change nothing
  that is modelled here, so they are left out.
\<close>

definition storage_NewClient :: "env \<Rightarrow> state \<Rightarrow> err option \<times> state" where
  "storage_NewClient E s = (fault E (now s) NewClient, tick NewClient s)"

text \<open>\<open>Object(key).NewReader\<close>: the bytes of the object, \<open>ErrObjectNotExist\<close> when there is none.\<close>

definition gcs_NewReader :: "env \<Rightarrow> string \<Rightarrow> state \<Rightarrow> (err + bytes) \<times> state" where
  "gcs_NewReader E objectKey s =
     (case fault E (now s) (NewReader objectKey) of
        Some e \<Rightarrow> (Inl e, tick (NewReader objectKey) s)
      | None \<Rightarrow>
         (case objects s objectKey of
            None \<Rightarrow> (Inl ErrObjectNotExist, tick (NewReader objectKey) s)
          | Some b \<Rightarrow> (Inr b, tick (NewReader objectKey) s)))"

text \<open>\<open>Object(key).Attrs\<close>: the size of the object stands for its attributes.\<close>

definition gcs_Attrs :: "env \<Rightarrow> string \<Rightarrow> state \<Rightarrow> (err + nat) \<times> state" where
  "gcs_Attrs E objectKey s =
     (case fault E (now s) (ObjAttrs objectKey) of
        Some e \<Rightarrow> (Inl e, tick (ObjAttrs objectKey) s)
      | None \<Rightarrow>
         (case objects s objectKey of
            None \<Rightarrow> (Inl ErrObjectNotExist, tick (ObjAttrs objectKey) s)
          | Some b \<Rightarrow> (Inr (length b), tick (ObjAttrs objectKey) s)))"

text \<open>
  \<open>io.Copy\<close> into the writer of an object sends the bytes; the object exists once the
  writer's \<open>Close\<close> has succeeded.
\<close>

definition gcs_Copy :: "env \<Rightarrow> string \<Rightarrow> state \<Rightarrow> err option \<times> state" where
  "gcs_Copy E objectKey s = (fault E (now s) (GcsCopy objectKey), tick (GcsCopy objectKey) s)"

definition gcs_Close :: "env \<Rightarrow> string \<Rightarrow> bytes \<Rightarrow> state \<Rightarrow> err option \<times> state" where
  "gcs_Close E objectKey b s =
     (case fault E (now s) (GcsClose objectKey) of
        Some e \<Rightarrow> (Some e, tick (GcsClose objectKey) s)
      | None \<Rightarrow> (None, tick (GcsClose objectKey) (s\<lparr>objects := (objects s)(objectKey \<mapsto> b)\<rparr>)))"

definition gcsURL :: "gcsStore \<Rightarrow> string \<Rightarrow> string" where
  "gcsURL j objectKey = ''gs://'' @ Bucket j @ ''/'' @ objectKey"

definition file_contents :: "state \<Rightarrow> path \<Rightarrow> bytes" where
  "file_contents s name = (case files s name of None \<Rightarrow> [] | Some b \<Rightarrow> b)"

definition gcsStore_Upload :: "env \<Rightarrow> gcsStore \<Rightarrow> path \<Rightarrow> string \<Rightarrow> state \<Rightarrow> err option \<times> state" where
  "gcsStore_Upload E j sourcePath hash s =
     (case os_Open E sourcePath s of
        (Inl e, s1) \<Rightarrow> (Some (Wrapf ''opening source file: %w'' [] e), s1)
      | (Inr src, s1) \<Rightarrow>
         (case storage_NewClient E s1 of
            (Some e, s2) \<Rightarrow> (Some (Wrapf ''creating GCS storage client: %w'' [] e), s2)
          | (None, s2) \<Rightarrow>
             (case gcs_Attrs E hash s2 of
                (Inr objAttrs, s3) \<Rightarrow> (None, s3)
              | (Inl e, s3) \<Rightarrow>
                 (if \<not> errors_Is e ErrObjectNotExist
                  then (Some (Wrapf ''getting object attributes for %q: %w'' [gcsURL j hash] e), s3)
                  else
                    (case gcs_Copy E hash s3 of
                       (Some e', s4) \<Rightarrow> (Some (Wrapf ''uploading to GCS: %w'' [] e'), s4)
                     | (None, s4) \<Rightarrow>
                        (case gcs_Close E hash (file_contents s4 src) s4 of
                           (Some e', s5) \<Rightarrow> (Some (Wrapf ''closing GCS writer: %w'' [] e'), s5)
                         | (None, s5) \<Rightarrow> (None, s5)))))))"

definition gcsStore_Download :: "env \<Rightarrow> gcsStore \<Rightarrow> string \<Rightarrow> path \<Rightarrow> state \<Rightarrow> err option \<times> state" where
  "gcsStore_Download E j hash destinationPath s =
     (case storage_NewClient E s of
        (Some e, s1) \<Rightarrow> (Some (Wrapf ''creating GCS storage client: %w'' [] e), s1)
      | (None, s1) \<Rightarrow>
         (case gcs_NewReader E hash s1 of
            (Inl e, s2) \<Rightarrow> (Some (Wrapf ''opening object from GCS %q: %w'' [gcsURL j hash] e), s2)
          | (Inr r, s2) \<Rightarrow>
             (case writeToFile E r destinationPath s2 of
                ((n, Some e), s3) \<Rightarrow> (Some (Wrapf ''downloading from GCS: %w'' [] e), s3)
              | ((n, None), s3) \<Rightarrow> (None, s3))))"

subsection \<open>The upstream source\<close>

definition http_NewRequest :: "env \<Rightarrow> string \<Rightarrow> state \<Rightarrow> err option \<times> state" where
  "http_NewRequest E url s = (fault E (now s) (NewRequest url), tick (NewRequest url) s)"

definition http_Do :: "env \<Rightarrow> string \<Rightarrow> state \<Rightarrow> (err + response) \<times> state" where
  "http_Do E url s =
     (case fault E (now s) (HttpDo url) of
        Some e \<Rightarrow> (Inl e, tick (HttpDo url) s)
      | None \<Rightarrow> (Inr (http E (now s) url), tick (HttpDo url) s))"

definition downloadFromSource :: "env \<Rightarrow> downloadJob \<Rightarrow> string \<Rightarrow> state \<Rightarrow> err option \<times> state" where
  "downloadFromSource E j sourceURL s =
     (case http_NewRequest E sourceURL s of
        (Some e, s1) \<Rightarrow> (Some (Wrapf ''creating request: %w'' [] e), s1)
      | (None, s1) \<Rightarrow>
         (case http_Do E sourceURL s1 of
            (Inl e, s2) \<Rightarrow> (Some (Wrapf ''doing request: %w'' [] e), s2)
          | (Inr resp, s2) \<Rightarrow>
             (if StatusCode resp \<noteq> 200
              then (Some (Errorf ''unexpected status downloading from upstream source: %v'' [Status resp]), s2)
              else
                (case writeToFile E (Body resp) (DestinationPath j) s2 of
                   ((n, Some e), s3) \<Rightarrow> (Some e, s3)
                 | ((n, None), s3) \<Rightarrow> (None, s3)))))"

subsection \<open>The cache\<close>

record blobCache =
  BaseDir :: path
  gcsStore :: gcsStore

definition downloadJob_run :: "env \<Rightarrow> blobCache \<Rightarrow> downloadJob \<Rightarrow> state \<Rightarrow> err option \<times> state" where
  "downloadJob_run E c j s =
     (case gcsStore_Download E (gcsStore c) (Hash j) (DestinationPath j) s of
        (None, s1) \<Rightarrow> (None, s1)
      | (Some e, s1) \<Rightarrow>
         (if \<not> errors_Is e ErrObjectNotExist
          then (Some (Wrapf ''downloading from GCS: %w'' [] e), s1)
          else
            (case SourceForBlob (Hash j) of
               Inl e' \<Rightarrow> (Some (Wrapf ''getting source for blob %q: %w'' [Hash j] e'), s1)
             | Inr source \<Rightarrow>
                (case downloadFromSource E j source s1 of
                   (Some e', s2) \<Rightarrow> (Some (Wrapf ''downloading blob %q: %w'' [Hash j] e'), s2)
                 | (None, s2) \<Rightarrow>
                    (case gcsStore_Upload E (gcsStore c) (DestinationPath j) (Hash j) s2 of
                       (Some e', s3) \<Rightarrow> (Some (Wrapf ''uploading to GCS: %w'' [] e'), s3)
                     | (None, s3) \<Rightarrow> (None, s3))))))"

text \<open>
  \<open>downloadBlob\<close> holds the mutex while it looks the hash up and registers the job, and
  again while it deletes the entry; the job runs between the two, without the mutex.
\<close>

definition downloadBlob :: "env \<Rightarrow> blobCache \<Rightarrow> string \<Rightarrow> path \<Rightarrow> state \<Rightarrow> err option \<times> state" where
  "downloadBlob E c hash destinationPath s =
     (case jobs s hash of
        Some job \<Rightarrow> (Some (Errorf ''download of %q already in progress'' [hash]), s)
      | None \<Rightarrow>
         (let job = \<lparr>Hash = hash, DestinationPath = destinationPath\<rparr> in
          case downloadJob_run E c job (s\<lparr>jobs := (jobs s)(hash \<mapsto> job)\<rparr>) of
            (err, s2) \<Rightarrow> (err, s2\<lparr>jobs := (jobs s2)(hash := None)\<rparr>)))"

definition GetBlob :: "env \<Rightarrow> blobCache \<Rightarrow> string \<Rightarrow> state \<Rightarrow> (err + path) \<times> state" where
  "GetBlob E c hash s =
     (let localPath = filepath_Join (BaseDir c) hash in
      case os_Open E localPath s of
        (Inr f, s1) \<Rightarrow> (Inr f, s1)
      | (Inl e, s1) \<Rightarrow>
         (if \<not> os_IsNotExist e
          then (Inl (Wrapf ''opening blob %q: %w'' [hash] e), s1)
          else
            (case downloadBlob E c hash localPath s1 of
               (Some e', s2) \<Rightarrow> (Inl (Wrapf ''downloading blob %q: %w'' [hash] e'), s2)
             | (None, s2) \<Rightarrow> os_Open E localPath s2)))"

subsection \<open>The HTTP front end\<close>

record request =
  Method :: string
  Path :: string

text \<open>
  What the handler writes. \<open>HttpError msg code\<close> is \<open>http.Error(w, msg, code)\<close>; the
  other three are what \<open>http.ServeFile\<close> can write: \<open>Redirect location\<close> is a 301 to
  \<open>location\<close>, \<open>Content b\<close> a 200 with the bytes \<open>b\<close> of a file, and \<open>DirList name\<close> a 200
  with a listing of the directory \<open>name\<close>.
\<close>

datatype reply =
    HttpError string nat
  | Redirect string
  | Content bytes
  | DirList path

fun status :: "reply \<Rightarrow> nat" where
  "status (HttpError msg code) = code"
| "status (Redirect location) = 301"
| "status (Content b) = 200"
| "status (DirList name) = 200"








subsection \<open>The model loader, client of the blob server\<close>







subsection \<open>Which calls belong to which tier\<close>

text \<open>
  The calls of the trace, sorted: calls on the local file system, the GET sent to the
  upstream source, and the calls by which \<open>gcsStore.Upload\<close> looks at and writes the bucket.
\<close>

fun is_file_call :: "call \<Rightarrow> bool" where
  "is_file_call (OsOpen n) = True"
| "is_file_call (OsCreateTemp d p) = True"
| "is_file_call (IoCopy n) = True"
| "is_file_call (FileClose n) = True"
| "is_file_call (OsRename a b) = True"
| "is_file_call (OsRemove n) = True"
| "is_file_call c = False"

fun is_origin_call :: "call \<Rightarrow> bool" where
  "is_origin_call (HttpDo u) = True"
| "is_origin_call c = False"

fun is_upload_call :: "call \<Rightarrow> bool" where
  "is_upload_call (ObjAttrs k) = True"
| "is_upload_call (GcsCopy k) = True"
| "is_upload_call (GcsClose k) = True"
| "is_upload_call c = False"



subsection \<open>Example worlds\<close>

text \<open>
  Concrete environments and states on which the theorems below are instantiated:
  a world without faults whose upstream answers \<open>200\<close> with the body \<open>abc\<close>, and
  variations of it with one kind of call failing.
\<close>

definition env_ok :: env where
  "env_ok = \<lparr>fault = (\<lambda>t c. None), short = (\<lambda>t. 0), temp_suffix = (\<lambda>t. ''1''),
             http = (\<lambda>t u. \<lparr>StatusCode = 200, Status = ''200 OK'', Body = ''abc''\<rparr>),
             is_dir = (\<lambda>name. False)\<rparr>"


definition empty_state :: state where
  "empty_state = \<lparr>files = Map.empty, objects = Map.empty, jobs = Map.empty, trace = []\<rparr>"

definition cache0 :: blobCache where
  "cache0 = \<lparr>BaseDir = [''cache''], gcsStore = \<lparr>Bucket = ''b''\<rparr>\<rparr>"

definition busy_state :: state where
  "busy_state = empty_state\<lparr>jobs := [''h'' \<mapsto> \<lparr>Hash = ''h'', DestinationPath = [''cache'', ''h'']\<rparr>]\<rparr>"



definition cached_state :: state where
  "cached_state = empty_state\<lparr>files := [[''cache'', ''h''] \<mapsto> ''xyz'']\<rparr>"

definition gemma_hash :: string where
  "gemma_hash = ''ecb6908345e7a10be94511eae715b6b6eadbc518b7c1dd0fd5ba8816b62b4dc9''"

definition gemma_url :: string where
  "gemma_url = ''https://huggingface.co/unsloth/gemma-3-12b-it-GGUF/resolve/main/gemma-3-12b-it-Q4_K_M.gguf''"

definition gemma_job :: downloadJob where
  "gemma_job = \<lparr>Hash = gemma_hash, DestinationPath = [''cache'', gemma_hash]\<rparr>"

definition durable_state :: state where
  "durable_state = empty_state\<lparr>objects := [gemma_hash \<mapsto> ''xyz'']\<rparr>"

definition env_copy_fail :: env where
  "env_copy_fail = env_ok\<lparr>
     fault := (\<lambda>t c. case c of IoCopy p \<Rightarrow> Some (Other ''connection reset'') | _ \<Rightarrow> None),
     short := (\<lambda>t. 2)\<rparr>"

definition env_copy_remove_fail :: env where
  "env_copy_remove_fail = env_ok\<lparr>
     fault := (\<lambda>t c. case c of IoCopy p \<Rightarrow> Some (Other ''read-only file system'')
                            | OsRemove p \<Rightarrow> Some (Other ''read-only file system'')
                            | _ \<Rightarrow> None),
     short := (\<lambda>t. 2)\<rparr>"

definition env_no_client :: env where
  "env_no_client = env_ok\<lparr>
     fault := (\<lambda>t c. case c of NewClient \<Rightarrow> Some (Other ''no credentials'') | _ \<Rightarrow> None)\<rparr>"

definition env_open_denied :: env where
  "env_open_denied = env_ok\<lparr>
     fault := (\<lambda>t c. case c of OsOpen p \<Rightarrow> Some (Other ''permission denied'') | _ \<Rightarrow> None)\<rparr>"

definition env_upload_fail :: env where
  "env_upload_fail = env_ok\<lparr>
     fault := (\<lambda>t c. case c of GcsCopy k \<Rightarrow> Some (Other ''quota exceeded'') | _ \<Rightarrow> None)\<rparr>"




section \<open>Properties\<close>

subsection \<open>Basic facts\<close>

lemmas prim_defs = os_Open_def os_CreateTemp_def io_Copy_def file_Close_def os_Rename_def
  os_Remove_def deferred_close_def deferred_remove_def storage_NewClient_def gcs_NewReader_def
  gcs_Attrs_def gcs_Copy_def gcs_Close_def http_NewRequest_def http_Do_def

lemma tick_simps [simp]:
  "trace (tick c s) = trace s @ [c]" "files (tick c s) = files s"
  "objects (tick c s) = objects s" "jobs (tick c s) = jobs s"
  "now (tick c s) = Suc (now s)"
  by (simp_all add: tick_def now_def)

lemma now_update [simp]:
  "now (s\<lparr>jobs := j\<rparr>) = now s" "now (s\<lparr>files := f\<rparr>) = now s" "now (s\<lparr>objects := ob\<rparr>) = now s"
  by (simp_all add: now_def)

subsection \<open>The registry lookup\<close>

lemma SourceForBlob_loop_filter:
  "SourceForBlob_loop kbs h src =
     (if filter (\<lambda>kb. knownBlob.Hash kb = h) kbs = [] then src
      else URL (last (filter (\<lambda>kb. knownBlob.Hash kb = h) kbs)))"
  by (induction kbs arbitrary: src) auto

lemma knownBlobs_URL: "kb \<in> set knownBlobs \<Longrightarrow> URL kb \<noteq> []"
  by (auto simp: knownBlobs_def)

lemma SourceForBlob_unknown:
  "\<forall>kb \<in> set knownBlobs. knownBlob.Hash kb \<noteq> hash \<Longrightarrow>
   SourceForBlob hash = Inl (Errorf ''blob %q not known'' [hash])"
  by (simp add: SourceForBlob_def SourceForBlob_in_def SourceForBlob_loop_filter filter_empty_conv)

text \<open>
  Claim C10. \<open>SourceForBlob\<close> scans the whole registry and does not stop at the first
  match: over any registry the answer is the URL of the last entry with the hash. It is the
  error \<open>blob %q not known\<close> when no entry matches (or, over a registry that had one, when
  the last match carried the empty URL, which the code cannot tell from no match). Over
  the registry of the source, whose URLs are all non-empty, it is an error exactly when no
  entry matches.
\<close>

theorem SourceForBlob_last_match:
  "SourceForBlob_in kbs h =
     (let ms = filter (\<lambda>kb. knownBlob.Hash kb = h) kbs in
      if ms = [] \<or> URL (last ms) = [] then Inl (Errorf ''blob %q not known'' [h])
      else Inr (URL (last ms)))
   \<and> SourceForBlob h =
     (let ms = filter (\<lambda>kb. knownBlob.Hash kb = h) knownBlobs in
      if ms = [] then Inl (Errorf ''blob %q not known'' [h]) else Inr (URL (last ms)))"
proof -
  let ?ms = "filter (\<lambda>kb. knownBlob.Hash kb = h) knownBlobs"
  have gen: "SourceForBlob_in kbs h =
     (let ms = filter (\<lambda>kb. knownBlob.Hash kb = h) kbs in
      if ms = [] \<or> URL (last ms) = [] then Inl (Errorf ''blob %q not known'' [h])
      else Inr (URL (last ms)))" for kbs
    by (simp add: SourceForBlob_in_def SourceForBlob_loop_filter Let_def)
  have "URL (last ?ms) \<noteq> []" if "?ms \<noteq> []"
  proof -
    from that have "last ?ms \<in> set ?ms" by (rule last_in_set)
    then have "last ?ms \<in> set knownBlobs" by simp
    then show ?thesis by (rule knownBlobs_URL)
  qed
  then have "SourceForBlob h =
     (let ms = ?ms in if ms = [] then Inl (Errorf ''blob %q not known'' [h]) else Inr (URL (last ms)))"
    unfolding SourceForBlob_def gen by (auto simp: Let_def)
  with gen show ?thesis by blast
qed

theorem SourceForBlob_last_match_witness:
  "SourceForBlob_in [\<lparr>knownBlob.Hash = ''h'', URL = ''u1''\<rparr>, \<lparr>knownBlob.Hash = ''h'', URL = ''u2''\<rparr>] ''h'' = Inr ''u2''
   \<and> SourceForBlob gemma_hash = Inr gemma_url
   \<and> SourceForBlob ''abc'' = Inl (Errorf ''blob %q not known'' [''abc''])"
  using SourceForBlob_last_match [of "[\<lparr>knownBlob.Hash = ''h'', URL = ''u1''\<rparr>, \<lparr>knownBlob.Hash = ''h'', URL = ''u2''\<rparr>]" "''h''"]
    SourceForBlob_last_match [of "[]" gemma_hash] SourceForBlob_last_match [of "[]" "''abc''"]
  by (simp add: knownBlobs_def gemma_hash_def gemma_url_def)

subsection \<open>The in-flight map\<close>

text \<open>
  Claim C1. When \<open>downloadBlob\<close> is called for a hash whose job is already in the
  \<open>jobs\<close> map, it returns the error \<open>download of %q already in progress\<close> at once:
  no call leaves the process, no job is registered and the state, the \<open>jobs\<close> map
  included, is the one it was called in.
\<close>

theorem downloadBlob_already_in_progress:
  "jobs s hash = Some job \<Longrightarrow>
   downloadBlob E c hash destinationPath s =
     (Some (Errorf ''download of %q already in progress'' [hash]), s)"
  by (simp add: downloadBlob_def)

theorem downloadBlob_already_in_progress_witness:
  "jobs busy_state ''h'' = Some \<lparr>Hash = ''h'', DestinationPath = [''cache'', ''h'']\<rparr> \<and>
   downloadBlob env_ok cache0 ''h'' [''cache'', ''h''] busy_state =
     (Some (Errorf ''download of %q already in progress'' [''h'']), busy_state)"
  using downloadBlob_already_in_progress [of busy_state "''h''"
      "\<lparr>Hash = ''h'', DestinationPath = [''cache'', ''h'']\<rparr>" env_ok cache0 "[''cache'', ''h'']"]
  by (simp add: busy_state_def)

text \<open>
  Claim C8, as stated, fails: a call that finds the hash in flight returns and the job of
  the other caller is still registered.
\<close>

theorem downloadBlob_busy_counterexample:
  "jobs (snd (downloadBlob env_ok cache0 ''h'' [''cache'', ''h''] busy_state)) ''h'' \<noteq> None"
  by (simp add: downloadBlob_def busy_state_def)

text \<open>No call touches the \<open>jobs\<close> map; only \<open>downloadBlob\<close> itself does.\<close>

lemma prim_jobs:
  "os_Open E name s = (r0, s0) \<Longrightarrow> jobs s0 = jobs s"
  "os_CreateTemp E dir pat s = (r1, s1) \<Longrightarrow> jobs s1 = jobs s"
  "io_Copy E dst src s = (r2, s2) \<Longrightarrow> jobs s2 = jobs s"
  "file_Close E name s = (r3, s3) \<Longrightarrow> jobs s3 = jobs s"
  "os_Rename E old new s = (r4, s4) \<Longrightarrow> jobs s4 = jobs s"
  "http_NewRequest E url s = (r5, s5) \<Longrightarrow> jobs s5 = jobs s"
  "http_Do E url s = (r6, s6) \<Longrightarrow> jobs s6 = jobs s"
  "storage_NewClient E s = (r7, s7) \<Longrightarrow> jobs s7 = jobs s"
  "gcs_NewReader E key s = (r8, s8) \<Longrightarrow> jobs s8 = jobs s"
  by (auto simp: os_Open_def os_CreateTemp_def io_Copy_def file_Close_def os_Rename_def
      http_NewRequest_def http_Do_def storage_NewClient_def gcs_NewReader_def Let_def
      split: option.splits)

lemma deferred_jobs [simp]:
  "jobs (deferred_close E name s) = jobs s"
  "jobs (deferred_remove E name s) = jobs s"
  by (auto simp: deferred_close_def deferred_remove_def file_Close_def os_Remove_def
      split: option.splits)

lemma writeToFile_jobs: "writeToFile E src d s = (r, s') \<Longrightarrow> jobs s' = jobs s"
  by (auto simp: writeToFile_def split: prod.splits sum.splits option.splits dest!: prim_jobs)

lemma Download_jobs: "gcsStore_Download E g h d s = (r, s') \<Longrightarrow> jobs s' = jobs s"
  by (auto simp: gcsStore_Download_def split: prod.splits sum.splits option.splits
      dest!: prim_jobs writeToFile_jobs)

lemma downloadFromSource_jobs: "downloadFromSource E j url s = (r, s') \<Longrightarrow> jobs s' = jobs s"
  by (auto simp: downloadFromSource_def split: prod.splits sum.splits option.splits if_splits
      dest!: prim_jobs writeToFile_jobs)

lemma Upload_upload_frame:
  "gcsStore_Upload E g p h s = (r, s') \<Longrightarrow> files s' = files s \<and> jobs s' = jobs s"
  by (auto simp: gcsStore_Upload_def prim_defs
      split: option.splits prod.splits sum.splits if_splits)

lemma run_jobs: "downloadJob_run E c j s = (r, s') \<Longrightarrow> jobs s' = jobs s"
  by (auto simp: downloadJob_run_def split: prod.splits sum.splits option.splits if_splits
      dest!: Download_jobs downloadFromSource_jobs Upload_upload_frame)

text \<open>
  Claim C8, amended. A call of \<open>downloadBlob\<close> that was admitted (no job for the hash
  was registered when it was called) returns the outcome of the pipeline, success or
  failure, and on return no job for the hash is registered: the \<open>jobs\<close> map is again the
  one the call found.
\<close>

theorem downloadBlob_removes_job:
  "jobs s hash = None \<Longrightarrow>
   jobs (snd (downloadBlob E c hash destinationPath s)) hash = None
   \<and> jobs (snd (downloadBlob E c hash destinationPath s)) = jobs s
   \<and> fst (downloadBlob E c hash destinationPath s) =
       fst (downloadJob_run E c \<lparr>Hash = hash, DestinationPath = destinationPath\<rparr>
             (s\<lparr>jobs := (jobs s)(hash \<mapsto> \<lparr>Hash = hash, DestinationPath = destinationPath\<rparr>)\<rparr>))"
  by (auto simp: downloadBlob_def Let_def fun_upd_idem split: prod.splits dest!: run_jobs)

theorem downloadBlob_removes_job_witness:
  "jobs empty_state ''h'' = None
   \<and> jobs (snd (downloadBlob env_ok cache0 ''h'' [''cache'', ''h''] empty_state)) ''h'' = None
   \<and> jobs (snd (downloadBlob env_ok cache0 ''h'' [''cache'', ''h''] empty_state)) = jobs empty_state"
proof -
  have "jobs empty_state ''h'' = None" by (simp add: empty_state_def)
  from this downloadBlob_removes_job [OF this, of env_ok cache0 "[''cache'', ''h'']"]
  show ?thesis by simp
qed

subsection \<open>\<open>GetBlob\<close>\<close>

text \<open>
  Claim C9. When opening the local path fails, \<open>GetBlob\<close> goes on to \<open>downloadBlob\<close>
  only if the error is a does-not-exist error. Any other error of the open is returned at
  once, wrapped in \<open>opening blob %q: %w\<close>, and the open is the only call that was made.
\<close>

theorem GetBlob_open_error:
  assumes "os_Open E (filepath_Join (BaseDir c) hash) s = (Inl e, s1)"
  shows "(\<not> os_IsNotExist e \<longrightarrow>
            GetBlob E c hash s = (Inl (Wrapf ''opening blob %q: %w'' [hash] e), s1) \<and>
            s1 = tick (OsOpen (filepath_Join (BaseDir c) hash)) s)
       \<and> (os_IsNotExist e \<longrightarrow>
            GetBlob E c hash s =
              (case downloadBlob E c hash (filepath_Join (BaseDir c) hash) s1 of
                 (Some e', s2) \<Rightarrow> (Inl (Wrapf ''downloading blob %q: %w'' [hash] e'), s2)
               | (None, s2) \<Rightarrow> os_Open E (filepath_Join (BaseDir c) hash) s2))"
  using assms
  by (auto simp: GetBlob_def Let_def os_Open_def split: option.splits)

theorem GetBlob_open_error_witness:
  "os_Open env_open_denied (filepath_Join (BaseDir cache0) ''h'') cached_state =
     (Inl (PathError ''open'' [''cache'', ''h''] (Other ''permission denied'')),
      tick (OsOpen [''cache'', ''h'']) cached_state)
   \<and> \<not> os_IsNotExist (PathError ''open'' [''cache'', ''h''] (Other ''permission denied''))
   \<and> GetBlob env_open_denied cache0 ''h'' cached_state =
       (Inl (Wrapf ''opening blob %q: %w'' [''h'']
              (PathError ''open'' [''cache'', ''h''] (Other ''permission denied''))),
        tick (OsOpen [''cache'', ''h'']) cached_state)"
proof -
  have 1: "os_Open env_open_denied (filepath_Join (BaseDir cache0) ''h'') cached_state =
     (Inl (PathError ''open'' [''cache'', ''h''] (Other ''permission denied'')),
      tick (OsOpen [''cache'', ''h'']) cached_state)"
    by (simp add: os_Open_def env_open_denied_def env_ok_def cache0_def filepath_Join_def
        clean_step_def)
  have 2: "\<not> os_IsNotExist (PathError ''open'' [''cache'', ''h''] (Other ''permission denied''))"
    by (simp add: os_IsNotExist_def)
  from 1 2 GetBlob_open_error [OF 1] show ?thesis by simp
qed

text \<open>
  Claim C7, as stated, fails: for a hash with no local file, no object in the bucket and
  no entry in the registry, whose download another caller has in flight, \<open>GetBlob\<close> fails
  with \<open>download of %q already in progress\<close>, not with the unknown-blob error.
\<close>

theorem GetBlob_busy_counterexample:
  "fst (GetBlob env_ok cache0 ''h'' busy_state) =
     Inl (Wrapf ''downloading blob %q: %w'' [''h'']
           (Errorf ''download of %q already in progress'' [''h'']))"
  by code_simp

lemma GetBlob_absent_fails:
  assumes "files s (filepath_Join (BaseDir c) hash) = None"
    and "objects s hash = None"
    and "SourceForBlob hash = Inl e0"
  shows "(\<exists>e. fst (GetBlob E c hash s) = Inl e)
         \<and> files (snd (GetBlob E c hash s)) = files s
         \<and> objects (snd (GetBlob E c hash s)) = objects s"
  using assms
  by (auto simp: GetBlob_def os_Open_def os_IsNotExist_def downloadBlob_def downloadJob_run_def
      gcsStore_Download_def storage_NewClient_def gcs_NewReader_def Let_def
      split: option.splits)

lemma GetBlob_absent_answer:
  assumes "files s (filepath_Join (BaseDir c) hash) = None"
    and "objects s hash = None"
    and "SourceForBlob hash = Inl (Errorf ''blob %q not known'' [hash])"
    and "jobs s hash = None"
    and "fault E (now s) (OsOpen (filepath_Join (BaseDir c) hash)) = None"
    and "fault E (Suc (now s)) NewClient = None"
    and "fault E (Suc (Suc (now s))) (NewReader hash) = None"
  shows "fst (GetBlob E c hash s) =
           Inl (Wrapf ''downloading blob %q: %w'' [hash]
                 (Wrapf ''getting source for blob %q: %w'' [hash]
                   (Errorf ''blob %q not known'' [hash])))
         \<and> jobs (snd (GetBlob E c hash s)) = jobs s
         \<and> trace (snd (GetBlob E c hash s)) =
             trace s @ [OsOpen (filepath_Join (BaseDir c) hash), NewClient, NewReader hash]"
  using assms
  by (simp add: GetBlob_def os_Open_def os_IsNotExist_def downloadBlob_def downloadJob_run_def
      gcsStore_Download_def storage_NewClient_def gcs_NewReader_def Let_def fun_upd_idem)

lemma GetBlob_in_flight:
  assumes "files s (filepath_Join (BaseDir c) hash) = None"
    and "jobs s hash = Some job"
    and "fault E (now s) (OsOpen (filepath_Join (BaseDir c) hash)) = None"
  shows "GetBlob E c hash s =
           (Inl (Wrapf ''downloading blob %q: %w'' [hash]
                  (Errorf ''download of %q already in progress'' [hash])),
            tick (OsOpen (filepath_Join (BaseDir c) hash)) s)"
  using assms
  by (simp add: GetBlob_def os_Open_def os_IsNotExist_def downloadBlob_def Let_def)

text \<open>
  Claim C7, amended. For a hash with no local file, no object in the bucket and no entry in
  the registry, \<open>GetBlob\<close> fails in every world, whatever is in flight and whichever calls
  fail, and the files and the bucket are as before. The error is \<open>blob %q not known\<close>
  (wrapped twice) when no download of the hash is in flight and the open, the client and
  the reader answer without a fault; then the \<open>jobs\<close> map is as before too and the only
  calls made are the open, \<open>NewClient\<close> and \<open>NewReader\<close>. With a download of the hash in
  flight and the open answering without a fault, the error is
  \<open>download of %q already in progress\<close> and the open is the only call.
\<close>

theorem GetBlob_unknown:
  assumes "files s (filepath_Join (BaseDir c) hash) = None"
    and "objects s hash = None"
    and "\<forall>kb \<in> set knownBlobs. knownBlob.Hash kb \<noteq> hash"
  shows "(\<exists>e. fst (GetBlob E c hash s) = Inl e)
         \<and> files (snd (GetBlob E c hash s)) = files s
         \<and> objects (snd (GetBlob E c hash s)) = objects s
         \<and> (jobs s hash = None \<and>
            fault E (now s) (OsOpen (filepath_Join (BaseDir c) hash)) = None \<and>
            fault E (Suc (now s)) NewClient = None \<and>
            fault E (Suc (Suc (now s))) (NewReader hash) = None \<longrightarrow>
              fst (GetBlob E c hash s) =
                Inl (Wrapf ''downloading blob %q: %w'' [hash]
                      (Wrapf ''getting source for blob %q: %w'' [hash]
                        (Errorf ''blob %q not known'' [hash]))) \<and>
              jobs (snd (GetBlob E c hash s)) = jobs s \<and>
              trace (snd (GetBlob E c hash s)) =
                trace s @ [OsOpen (filepath_Join (BaseDir c) hash), NewClient, NewReader hash])
         \<and> (\<forall>job. jobs s hash = Some job \<and>
            fault E (now s) (OsOpen (filepath_Join (BaseDir c) hash)) = None \<longrightarrow>
              GetBlob E c hash s =
                (Inl (Wrapf ''downloading blob %q: %w'' [hash]
                       (Errorf ''download of %q already in progress'' [hash])),
                 tick (OsOpen (filepath_Join (BaseDir c) hash)) s))"
proof -
  note u = SourceForBlob_unknown [OF assms(3)]
  from GetBlob_absent_fails [OF assms(1,2) u, of E]
    GetBlob_absent_answer [OF assms(1,2) u, of E]
    GetBlob_in_flight [OF assms(1), where E = E]
  show ?thesis by blast
qed

theorem GetBlob_unknown_witness:
  "files empty_state (filepath_Join (BaseDir cache0) ''abc'') = None
   \<and> objects empty_state ''abc'' = None
   \<and> ''abc'' \<notin> knownBlob.Hash ` set knownBlobs
   \<and> jobs empty_state ''abc'' = None
   \<and> fst (GetBlob env_ok cache0 ''abc'' empty_state) =
           Inl (Wrapf ''downloading blob %q: %w'' [''abc'']
                 (Wrapf ''getting source for blob %q: %w'' [''abc'']
                   (Errorf ''blob %q not known'' [''abc''])))
   \<and> files (snd (GetBlob env_ok cache0 ''abc'' empty_state)) = files empty_state
   \<and> objects (snd (GetBlob env_ok cache0 ''abc'' empty_state)) = objects empty_state
   \<and> files (snd (GetBlob env_no_client cache0 ''abc'' empty_state)) = files empty_state
   \<and> objects (snd (GetBlob env_no_client cache0 ''abc'' empty_state)) = objects empty_state"
proof -
  have h: "files empty_state (filepath_Join (BaseDir cache0) ''abc'') = None"
    "objects empty_state ''abc'' = None"
    "\<forall>kb \<in> set knownBlobs. knownBlob.Hash kb \<noteq> ''abc''"
    by (simp_all add: empty_state_def knownBlobs_def)
  have f: "jobs empty_state ''abc'' = None \<and>
    fault env_ok (now empty_state) (OsOpen (filepath_Join (BaseDir cache0) ''abc'')) = None \<and>
    fault env_ok (Suc (now empty_state)) NewClient = None \<and>
    fault env_ok (Suc (Suc (now empty_state))) (NewReader ''abc'') = None"
    by (simp add: empty_state_def env_ok_def)
  from h(3) have n: "''abc'' \<notin> knownBlob.Hash ` set knownBlobs" by auto
  note a = GetBlob_unknown [OF h, of env_ok] and b = GetBlob_unknown [OF h, of env_no_client]
  from a f have 1: "fst (GetBlob env_ok cache0 ''abc'' empty_state) =
           Inl (Wrapf ''downloading blob %q: %w'' [''abc'']
                 (Wrapf ''getting source for blob %q: %w'' [''abc'']
                   (Errorf ''blob %q not known'' [''abc''])))"
    by blast
  from a have 2: "files (snd (GetBlob env_ok cache0 ''abc'' empty_state)) = files empty_state"
    "objects (snd (GetBlob env_ok cache0 ''abc'' empty_state)) = objects empty_state"
    by blast+
  from b have 3: "files (snd (GetBlob env_no_client cache0 ''abc'' empty_state)) = files empty_state"
    "objects (snd (GetBlob env_no_client cache0 ''abc'' empty_state)) = objects empty_state"
    by blast+
  from f have j: "jobs empty_state ''abc'' = None" by blast
  from h(1,2) n j 1 2 3 show ?thesis by (intro conjI)
qed

subsection \<open>Routing\<close>










subsection \<open>\<open>writeToFile\<close>\<close>

text \<open>
  Claim C2, as stated, fails where the removal of the temporary file fails: \<open>os.Remove\<close>
  is called in a deferred function that only logs its error. Here the file system has
  turned read-only: the copy fails after two bytes and so does the removal;
  \<open>writeToFile\<close> returns an error and the temporary file is still there with the two bytes.
\<close>

theorem writeToFile_leftover_counterexample:
  "snd (fst (writeToFile env_copy_remove_fail ''abc'' [''cache'', ''h''] empty_state)) =
     Some (Wrapf ''downloading from upstream source: %w'' [] (Other ''read-only file system''))
   \<and> files (snd (writeToFile env_copy_remove_fail ''abc'' [''cache'', ''h''] empty_state))
        [''cache'', ''download1''] = Some ''ab''"
  by code_simp

lemma writeToFile_success:
  "snd (fst (writeToFile E src d s)) = None \<Longrightarrow>
   files (snd (writeToFile E src d s)) = (files s)(d \<mapsto> src) \<and>
   fst (fst (writeToFile E src d s)) = length src"
  by (auto simp: writeToFile_def prim_defs Let_def split: option.splits)

lemma writeToFile_failure:
  "snd (fst (writeToFile E src d s)) \<noteq> None \<Longrightarrow>
   \<forall>t. fault E t (OsRemove (filepath_Dir d @ [''download'' @ temp_suffix E (now s)])) = None \<Longrightarrow>
   files (snd (writeToFile E src d s)) = files s"
  by (auto simp: writeToFile_def prim_defs Let_def split: option.splits)

lemma writeToFile_failure_others:
  "snd (fst (writeToFile E src d s)) \<noteq> None \<Longrightarrow>
   p \<noteq> filepath_Dir d @ [''download'' @ temp_suffix E (now s)] \<Longrightarrow>
   files (snd (writeToFile E src d s)) p = files s p"
  by (auto simp: writeToFile_def prim_defs Let_def split: option.splits)

lemma writeToFile_dir:
  "files (snd (writeToFile E src d s)) p \<noteq> files s p \<Longrightarrow> filepath_Dir p = filepath_Dir d"
  by (auto simp: writeToFile_def prim_defs Let_def filepath_Dir_def split: option.splits if_splits)

lemma writeToFile_first_call:
  "take (Suc (now s)) (trace (snd (writeToFile E src d s))) =
   trace s @ [OsCreateTemp (filepath_Dir d) ''download'']"
  by (auto simp: writeToFile_def prim_defs Let_def now_def split: option.splits)

text \<open>
  Claim C2, amended. \<open>writeToFile\<close> first calls \<open>os.CreateTemp\<close> on the directory of the
  destination, and it changes no path outside that directory. If it returns no error, the
  destination holds exactly the bytes of the stream, every other path is as before (so no
  temporary file is left) and the count returned is the length of the stream. If it
  returns an error, every path other than the temporary file is as before, so the
  destination keeps its content or its absence (\<open>os.CreateTemp\<close> picks a name that is
  free; only if it picked the destination's own name would the two be the same path).
  If moreover the \<open>os.Remove\<close> of the temporary file does not fail, the temporary file is
  gone and every path is as before.
\<close>

theorem writeToFile_atomic:
  "take (Suc (now s)) (trace (snd (writeToFile E src d s))) =
     trace s @ [OsCreateTemp (filepath_Dir d) ''download'']
   \<and> (\<forall>p. files (snd (writeToFile E src d s)) p \<noteq> files s p \<longrightarrow> filepath_Dir p = filepath_Dir d)
   \<and> (snd (fst (writeToFile E src d s)) = None \<longrightarrow>
        files (snd (writeToFile E src d s)) = (files s)(d \<mapsto> src) \<and>
        fst (fst (writeToFile E src d s)) = length src)
   \<and> (snd (fst (writeToFile E src d s)) \<noteq> None \<longrightarrow>
        (\<forall>p. p \<noteq> filepath_Dir d @ [''download'' @ temp_suffix E (now s)] \<longrightarrow>
             files (snd (writeToFile E src d s)) p = files s p) \<and>
        (d \<noteq> filepath_Dir d @ [''download'' @ temp_suffix E (now s)] \<longrightarrow>
             files (snd (writeToFile E src d s)) d = files s d) \<and>
        ((\<forall>t. fault E t (OsRemove (filepath_Dir d @ [''download'' @ temp_suffix E (now s)])) = None) \<longrightarrow>
             files (snd (writeToFile E src d s)) = files s))"
  using writeToFile_first_call [of s E src d] writeToFile_dir [of E src d s]
    writeToFile_success [of E src d s] writeToFile_failure [of E src d s]
    writeToFile_failure_others [of E src d s]
  by blast

theorem writeToFile_atomic_witness:
  "snd (fst (writeToFile env_ok ''abc'' [''cache'', ''h''] empty_state)) = None
   \<and> files (snd (writeToFile env_ok ''abc'' [''cache'', ''h''] empty_state)) =
       (files empty_state)([''cache'', ''h''] \<mapsto> ''abc'')
   \<and> snd (fst (writeToFile env_copy_fail ''abc'' [''cache'', ''h''] empty_state)) \<noteq> None
   \<and> files (snd (writeToFile env_copy_fail ''abc'' [''cache'', ''h''] empty_state)) = files empty_state
   \<and> snd (fst (writeToFile env_copy_remove_fail ''abc'' [''cache'', ''h''] cached_state)) \<noteq> None
   \<and> files (snd (writeToFile env_copy_remove_fail ''abc'' [''cache'', ''h''] cached_state))
       [''cache'', ''h''] = Some ''xyz''"
proof -
  have 1: "snd (fst (writeToFile env_ok ''abc'' [''cache'', ''h''] empty_state)) = None"
    by code_simp
  have 2: "snd (fst (writeToFile env_copy_fail ''abc'' [''cache'', ''h''] empty_state)) \<noteq> None"
    by code_simp
  have 3: "\<forall>t. fault env_copy_fail t (OsRemove (filepath_Dir [''cache'', ''h''] @
      [''download'' @ temp_suffix env_copy_fail (now empty_state)])) = None"
    by (simp add: env_copy_fail_def env_ok_def)
  have 4: "snd (fst (writeToFile env_copy_remove_fail ''abc'' [''cache'', ''h''] cached_state)) \<noteq> None"
    by code_simp
  have 5: "[''cache'', ''h''] \<noteq> filepath_Dir [''cache'', ''h''] @
      [''download'' @ temp_suffix env_copy_remove_fail (now cached_state)]"
    by (simp add: filepath_Dir_def)
  have 6: "files cached_state [''cache'', ''h''] = Some ''xyz''"
    by (simp add: cached_state_def empty_state_def)
  from 1 writeToFile_atomic [of empty_state env_ok "''abc''" "[''cache'', ''h'']"]
  have a: "files (snd (writeToFile env_ok ''abc'' [''cache'', ''h''] empty_state)) =
       (files empty_state)([''cache'', ''h''] \<mapsto> ''abc'')"
    by blast
  from 2 3 writeToFile_atomic [of empty_state env_copy_fail "''abc''" "[''cache'', ''h'']"]
  have b: "files (snd (writeToFile env_copy_fail ''abc'' [''cache'', ''h''] empty_state)) =
       files empty_state"
    by blast
  from 4 5 writeToFile_atomic [of cached_state env_copy_remove_fail "''abc''" "[''cache'', ''h'']"]
  have "files (snd (writeToFile env_copy_remove_fail ''abc'' [''cache'', ''h''] cached_state))
       [''cache'', ''h''] = files cached_state [''cache'', ''h'']"
    by blast
  with 6 have c: "files (snd (writeToFile env_copy_remove_fail ''abc'' [''cache'', ''h''] cached_state))
       [''cache'', ''h''] = Some ''xyz''"
    by (simp only:)
  from 1 a 2 b 4 c show ?thesis by (intro conjI)
qed

subsection \<open>The tiers of \<open>downloadJob.run\<close>\<close>

lemma file_calls_nonfile:
  "os_CreateTemp E dir pat s = (r1, s1) \<Longrightarrow>
     filter (\<lambda>c. \<not> is_file_call c) (trace s1) = filter (\<lambda>c. \<not> is_file_call c) (trace s)"
  "io_Copy E dst src s = (r2, s2) \<Longrightarrow>
     filter (\<lambda>c. \<not> is_file_call c) (trace s2) = filter (\<lambda>c. \<not> is_file_call c) (trace s)"
  "file_Close E name s = (r3, s3) \<Longrightarrow>
     filter (\<lambda>c. \<not> is_file_call c) (trace s3) = filter (\<lambda>c. \<not> is_file_call c) (trace s)"
  "os_Rename E old new s = (r4, s4) \<Longrightarrow>
     filter (\<lambda>c. \<not> is_file_call c) (trace s4) = filter (\<lambda>c. \<not> is_file_call c) (trace s)"
  by (auto simp: os_CreateTemp_def io_Copy_def file_Close_def os_Rename_def Let_def
      split: option.splits)

lemma deferred_nonfile [simp]:
  "filter (\<lambda>c. \<not> is_file_call c) (trace (deferred_close E name s)) =
   filter (\<lambda>c. \<not> is_file_call c) (trace s)"
  "filter (\<lambda>c. \<not> is_file_call c) (trace (deferred_remove E name s)) =
   filter (\<lambda>c. \<not> is_file_call c) (trace s)"
  by (auto simp: deferred_close_def deferred_remove_def file_Close_def os_Remove_def
      split: option.splits)

lemma writeToFile_nonfile:
  "filter (\<lambda>c. \<not> is_file_call c) (trace (snd (writeToFile E src d s))) =
   filter (\<lambda>c. \<not> is_file_call c) (trace s)"
  by (auto simp: writeToFile_def split: prod.splits sum.splits option.splits
      dest!: file_calls_nonfile)

lemma filter_nonfile:
  "(\<And>c. Q c \<Longrightarrow> \<not> is_file_call c) \<Longrightarrow> filter Q tr = filter Q (filter (\<lambda>c. \<not> is_file_call c) tr)"
  by (induction tr) auto

lemma writeToFile_filter:
  assumes "\<And>c. Q c \<Longrightarrow> \<not> is_file_call c" and "writeToFile E src d s = (r, s')"
  shows "filter Q (trace s') = filter Q (trace s)"
proof -
  have "filter Q (trace s') = filter Q (filter (\<lambda>c. \<not> is_file_call c) (trace (snd (writeToFile E src d s))))"
    using assms(2) filter_nonfile [OF assms(1)] by simp
  also have "\<dots> = filter Q (filter (\<lambda>c. \<not> is_file_call c) (trace s))"
    by (simp only: writeToFile_nonfile)
  also have "\<dots> = filter Q (trace s)"
    using filter_nonfile [OF assms(1), symmetric] by simp
  finally show ?thesis .
qed

lemma origin_not_file: "is_origin_call c \<Longrightarrow> \<not> is_file_call c"
  by (cases c) simp_all

lemma upload_not_file: "is_upload_call c \<Longrightarrow> \<not> is_file_call c"
  by (cases c) simp_all

lemma writeToFile_origin:
  "writeToFile E src d s = (r, s') \<Longrightarrow>
   filter is_origin_call (trace s') = filter is_origin_call (trace s)"
  by (rule writeToFile_filter [where Q = is_origin_call]) (simp_all add: origin_not_file)

lemma writeToFile_upload:
  "writeToFile E src d s = (r, s') \<Longrightarrow>
   filter is_upload_call (trace s') = filter is_upload_call (trace s)"
  by (rule writeToFile_filter [where Q = is_upload_call]) (simp_all add: upload_not_file)

lemma Download_origin:
  "gcsStore_Download E g h d s = (r, s') \<Longrightarrow>
   filter is_origin_call (trace s') = filter is_origin_call (trace s)"
  by (auto simp: gcsStore_Download_def storage_NewClient_def gcs_NewReader_def
      split: option.splits prod.splits sum.splits dest!: writeToFile_origin)

lemma Download_upload:
  "gcsStore_Download E g h d s = (r, s') \<Longrightarrow>
   filter is_upload_call (trace s') = filter is_upload_call (trace s)"
  by (auto simp: gcsStore_Download_def storage_NewClient_def gcs_NewReader_def
      split: option.splits prod.splits sum.splits dest!: writeToFile_upload)

lemma Upload_origin:
  "gcsStore_Upload E g p h s = (r, s') \<Longrightarrow>
   filter is_origin_call (trace s') = filter is_origin_call (trace s)"
  by (auto simp: gcsStore_Upload_def prim_defs
      split: option.splits prod.splits sum.splits if_splits)

lemma downloadFromSource_origin:
  "downloadFromSource E j url s = (r, s') \<Longrightarrow>
   filter is_origin_call (trace s') =
   filter is_origin_call (trace s) @ (if fault E (now s) (NewRequest url) = None then [HttpDo url] else [])"
  by (auto simp: downloadFromSource_def http_NewRequest_def http_Do_def
      split: option.splits prod.splits sum.splits if_splits dest!: writeToFile_origin)

lemma run_origin:
  assumes d: "gcsStore_Download E (gcsStore c) (Hash j) (DestinationPath j) s = (r1, s1)"
  shows "filter is_origin_call (trace (snd (downloadJob_run E c j s))) =
         filter is_origin_call (trace s) @
           (case r1 of None \<Rightarrow> []
            | Some e \<Rightarrow>
               if errors_Is e ErrObjectNotExist then
                 (case SourceForBlob (Hash j) of Inl e' \<Rightarrow> []
                  | Inr url \<Rightarrow> if fault E (now s1) (NewRequest url) = None then [HttpDo url] else [])
               else [])"
proof (cases r1)
  case None
  with d Download_origin [OF d] show ?thesis by (simp add: downloadJob_run_def)
next
  case (Some e)
  show ?thesis
  proof (cases "errors_Is e ErrObjectNotExist")
    case False
    with d Some Download_origin [OF d] show ?thesis by (simp add: downloadJob_run_def)
  next
    case True
    show ?thesis
    proof (cases "SourceForBlob (Hash j)")
      case (Inl e')
      with d Some True Download_origin [OF d] show ?thesis by (simp add: downloadJob_run_def)
    next
      case (Inr url)
      obtain r2 s2 where f: "downloadFromSource E j url s1 = (r2, s2)" by force
      obtain r3 s3 where u: "gcsStore_Upload E (gcsStore c) (DestinationPath j) (Hash j) s2 = (r3, s3)"
        by force
      from d Some True Inr f u Download_origin [OF d] downloadFromSource_origin [OF f]
        Upload_origin [OF u]
      show ?thesis by (cases r2; cases r3) (simp_all add: downloadJob_run_def)
    qed
  qed
qed

text \<open>
  Claim C3. Let \<open>d\<close> be the outcome of \<open>gcsStore.Download\<close>. If \<open>d\<close> is a success,
  \<open>run\<close> returns success in the state \<open>Download\<close> left, in which no GET to the origin and
  no upload call has been added. If \<open>d\<close> is an error that is not \<open>ErrObjectNotExist\<close>,
  \<open>run\<close> returns it wrapped, again with no GET and no upload call. If \<open>d\<close> is
  \<open>ErrObjectNotExist\<close>, \<open>run\<close> goes on to the origin tier: for a hash the registry does
  not know it returns the error of \<open>SourceForBlob\<close> wrapped, and for a known hash (whose
  request can be built) exactly one GET to its URL is added to the trace.
\<close>

theorem downloadJob_run_tiers:
  "(fst (gcsStore_Download E (gcsStore c) (Hash j) (DestinationPath j) s) = None \<longrightarrow>
      downloadJob_run E c j s =
        (None, snd (gcsStore_Download E (gcsStore c) (Hash j) (DestinationPath j) s)) \<and>
      filter is_origin_call (trace (snd (downloadJob_run E c j s))) = filter is_origin_call (trace s) \<and>
      filter is_upload_call (trace (snd (downloadJob_run E c j s))) = filter is_upload_call (trace s))
   \<and> (\<forall>e. fst (gcsStore_Download E (gcsStore c) (Hash j) (DestinationPath j) s) = Some e \<and>
          \<not> errors_Is e ErrObjectNotExist \<longrightarrow>
      downloadJob_run E c j s =
        (Some (Wrapf ''downloading from GCS: %w'' [] e),
         snd (gcsStore_Download E (gcsStore c) (Hash j) (DestinationPath j) s)) \<and>
      filter is_origin_call (trace (snd (downloadJob_run E c j s))) = filter is_origin_call (trace s) \<and>
      filter is_upload_call (trace (snd (downloadJob_run E c j s))) = filter is_upload_call (trace s))
   \<and> (\<forall>e e'. fst (gcsStore_Download E (gcsStore c) (Hash j) (DestinationPath j) s) = Some e \<and>
          errors_Is e ErrObjectNotExist \<and> SourceForBlob (Hash j) = Inl e' \<longrightarrow>
      downloadJob_run E c j s =
        (Some (Wrapf ''getting source for blob %q: %w'' [Hash j] e'),
         snd (gcsStore_Download E (gcsStore c) (Hash j) (DestinationPath j) s)))
   \<and> (\<forall>e url. fst (gcsStore_Download E (gcsStore c) (Hash j) (DestinationPath j) s) = Some e \<and>
          errors_Is e ErrObjectNotExist \<and> SourceForBlob (Hash j) = Inr url \<and>
          fault E (now (snd (gcsStore_Download E (gcsStore c) (Hash j) (DestinationPath j) s)))
            (NewRequest url) = None \<longrightarrow>
      filter is_origin_call (trace (snd (downloadJob_run E c j s))) =
        filter is_origin_call (trace s) @ [HttpDo url])"
proof -
  obtain r1 s1 where d: "gcsStore_Download E (gcsStore c) (Hash j) (DestinationPath j) s = (r1, s1)"
    by force
  note o = run_origin [OF d] and fo = Download_origin [OF d] and fu = Download_upload [OF d]
  have 1: "r1 = None \<Longrightarrow> downloadJob_run E c j s = (None, s1)"
    using d by (simp add: downloadJob_run_def)
  have 2: "r1 = Some e \<Longrightarrow> \<not> errors_Is e ErrObjectNotExist \<Longrightarrow>
      downloadJob_run E c j s = (Some (Wrapf ''downloading from GCS: %w'' [] e), s1)" for e
    using d by (simp add: downloadJob_run_def)
  have 3: "r1 = Some e \<Longrightarrow> errors_Is e ErrObjectNotExist \<Longrightarrow> SourceForBlob (Hash j) = Inl e' \<Longrightarrow>
      downloadJob_run E c j s = (Some (Wrapf ''getting source for blob %q: %w'' [Hash j] e'), s1)" for e e'
    using d by (simp add: downloadJob_run_def)
  show ?thesis
    using d o fo fu 1 2 3 by (auto simp del: errors_Is.simps)
qed

theorem downloadJob_run_tiers_witness:
  "fst (gcsStore_Download env_ok (gcsStore cache0) (Hash gemma_job) (DestinationPath gemma_job)
         durable_state) = None
   \<and> filter is_origin_call (trace (snd (downloadJob_run env_ok cache0 gemma_job durable_state))) =
       filter is_origin_call (trace durable_state)
   \<and> fst (gcsStore_Download env_no_client (gcsStore cache0) (Hash gemma_job)
         (DestinationPath gemma_job) empty_state) =
       Some (Wrapf ''creating GCS storage client: %w'' [] (Other ''no credentials''))
   \<and> \<not> errors_Is (Wrapf ''creating GCS storage client: %w'' [] (Other ''no credentials''))
         ErrObjectNotExist
   \<and> filter is_origin_call (trace (snd (downloadJob_run env_no_client cache0 gemma_job empty_state))) =
       filter is_origin_call (trace empty_state)
   \<and> fst (gcsStore_Download env_ok (gcsStore cache0) (Hash gemma_job) (DestinationPath gemma_job)
         empty_state) =
       Some (Wrapf ''opening object from GCS %q: %w'' [gcsURL (gcsStore cache0) gemma_hash]
              ErrObjectNotExist)
   \<and> SourceForBlob (Hash gemma_job) = Inr gemma_url
   \<and> filter is_origin_call (trace (snd (downloadJob_run env_ok cache0 gemma_job empty_state))) =
       filter is_origin_call (trace empty_state) @ [HttpDo gemma_url]"
proof -
  have 1: "fst (gcsStore_Download env_ok (gcsStore cache0) (Hash gemma_job)
      (DestinationPath gemma_job) durable_state) = None"
    by code_simp
  have 2: "fst (gcsStore_Download env_no_client (gcsStore cache0) (Hash gemma_job)
      (DestinationPath gemma_job) empty_state) =
       Some (Wrapf ''creating GCS storage client: %w'' [] (Other ''no credentials''))"
    by code_simp
  have 3: "\<not> errors_Is (Wrapf ''creating GCS storage client: %w'' [] (Other ''no credentials''))
         ErrObjectNotExist"
    by simp
  have 4: "fst (gcsStore_Download env_ok (gcsStore cache0) (Hash gemma_job)
      (DestinationPath gemma_job) empty_state) =
       Some (Wrapf ''opening object from GCS %q: %w'' [gcsURL (gcsStore cache0) gemma_hash]
              ErrObjectNotExist)"
    by code_simp
  have 5: "errors_Is (Wrapf ''opening object from GCS %q: %w'' [gcsURL (gcsStore cache0) gemma_hash]
              ErrObjectNotExist) ErrObjectNotExist"
    by simp
  have 6: "SourceForBlob (Hash gemma_job) = Inr gemma_url"
    by code_simp
  have 7: "fault env_ok (now (snd (gcsStore_Download env_ok (gcsStore cache0) (Hash gemma_job)
      (DestinationPath gemma_job) empty_state))) (NewRequest gemma_url) = None"
    by (simp add: env_ok_def)
  from 1 2 3 4 5 6 7
    downloadJob_run_tiers [of env_ok cache0 gemma_job durable_state]
    downloadJob_run_tiers [of env_no_client cache0 gemma_job empty_state]
    downloadJob_run_tiers [of env_ok cache0 gemma_job empty_state]
  show ?thesis by blast
qed

subsection \<open>A failed upload after a successful fetch\<close>

lemma writeToFile_success_elim:
  "writeToFile E src d s = ((n, None), s') \<Longrightarrow> files s' = (files s)(d \<mapsto> src) \<and> n = length src"
  using writeToFile_success [of E src d s] by simp

lemma downloadFromSource_success:
  "downloadFromSource E j url s = (None, s') \<Longrightarrow>
   files s' (DestinationPath j) = Some (Body (http E (Suc (now s)) url))"
  by (auto simp: downloadFromSource_def http_NewRequest_def http_Do_def
      split: option.splits prod.splits sum.splits if_splits dest!: writeToFile_success_elim)

lemma downloadBlob_admitted:
  assumes "jobs s hash = None"
    and "downloadJob_run E c \<lparr>Hash = hash, DestinationPath = d\<rparr>
           (s\<lparr>jobs := (jobs s)(hash \<mapsto> \<lparr>Hash = hash, DestinationPath = d\<rparr>)\<rparr>) = (r, s')"
  shows "downloadBlob E c hash d s = (r, s'\<lparr>jobs := (jobs s')(hash := None)\<rparr>)"
  using assms by (simp add: downloadBlob_def Let_def)

lemma run_upload_failure:
  assumes d: "gcsStore_Download E (gcsStore c) (Hash j) (DestinationPath j) s = (Some e, s1)"
    and miss: "errors_Is e ErrObjectNotExist"
    and src: "SourceForBlob (Hash j) = Inr url"
    and f: "downloadFromSource E j url s1 = (None, s2)"
    and u: "gcsStore_Upload E (gcsStore c) (DestinationPath j) (Hash j) s2 = (Some e', s3)"
  shows "downloadJob_run E c j s = (Some (Wrapf ''uploading to GCS: %w'' [] e'), s3)"
    and "files s3 (DestinationPath j) = Some (Body (http E (Suc (now s1)) url))"
proof -
  show "downloadJob_run E c j s = (Some (Wrapf ''uploading to GCS: %w'' [] e'), s3)"
    using d miss src f u by (simp add: downloadJob_run_def)
  from downloadFromSource_success [OF f] Upload_upload_frame [OF u]
  show "files s3 (DestinationPath j) = Some (Body (http E (Suc (now s1)) url))" by simp
qed

text \<open>
  Claim C4. Take a hash with no local file and no job in flight, for which the download
  from the bucket reports \<open>ErrObjectNotExist\<close>, the registry has a URL and the fetch from
  that URL succeeds. If the upload to the bucket then fails with \<open>e'\<close>, \<open>run\<close> returns
  \<open>e'\<close> wrapped in \<open>uploading to GCS: %w\<close>, \<open>downloadBlob\<close> returns the same error and
  \<open>GetBlob\<close> returns it wrapped once more, although the local path holds the complete
  body that the origin sent.
\<close>

theorem upload_failure_fails_request:
  fixes E c hash s url e e'
  defines "localPath \<equiv> filepath_Join (BaseDir c) hash"
  defines "job \<equiv> \<lparr>Hash = hash, DestinationPath = localPath\<rparr>"
  defines "s0 \<equiv> (tick (OsOpen localPath) s)\<lparr>jobs := (jobs s)(hash \<mapsto> job)\<rparr>"
  defines "s1 \<equiv> snd (gcsStore_Download E (gcsStore c) hash localPath s0)"
  defines "s2 \<equiv> snd (downloadFromSource E job url s1)"
  assumes "files s localPath = None" and "fault E (now s) (OsOpen localPath) = None"
    and "jobs s hash = None"
    and "fst (gcsStore_Download E (gcsStore c) hash localPath s0) = Some e"
    and "errors_Is e ErrObjectNotExist"
    and "SourceForBlob hash = Inr url"
    and "fst (downloadFromSource E job url s1) = None"
    and "fst (gcsStore_Upload E (gcsStore c) localPath hash s2) = Some e'"
  shows "fst (downloadJob_run E c job s0) = Some (Wrapf ''uploading to GCS: %w'' [] e')
       \<and> fst (downloadBlob E c hash localPath (tick (OsOpen localPath) s)) =
           Some (Wrapf ''uploading to GCS: %w'' [] e')
       \<and> fst (GetBlob E c hash s) =
           Inl (Wrapf ''downloading blob %q: %w'' [hash] (Wrapf ''uploading to GCS: %w'' [] e'))
       \<and> files (snd (GetBlob E c hash s)) localPath = Some (Body (http E (Suc (now s1)) url))"
proof -
  obtain s3 where u: "gcsStore_Upload E (gcsStore c) (DestinationPath job) (Hash job) s2 = (Some e', s3)"
    using assms(13) by (cases "gcsStore_Upload E (gcsStore c) localPath hash s2") (simp add: job_def)
  have d: "gcsStore_Download E (gcsStore c) (Hash job) (DestinationPath job) s0 = (Some e, s1)"
    using assms(9) by (simp add: s1_def job_def prod_eq_iff)
  have f: "downloadFromSource E job url s1 = (None, s2)"
    using assms(12) by (simp add: s2_def prod_eq_iff)
  have src: "SourceForBlob (Hash job) = Inr url"
    using assms(11) by (simp add: job_def)
  note r = run_upload_failure [OF d assms(10) src f u]
  have s0: "s0 = (tick (OsOpen localPath) s)\<lparr>jobs := (jobs (tick (OsOpen localPath) s))(hash \<mapsto> job)\<rparr>"
    by (simp add: s0_def)
  have b: "downloadBlob E c hash localPath (tick (OsOpen localPath) s) =
      (Some (Wrapf ''uploading to GCS: %w'' [] e'), s3\<lparr>jobs := (jobs s3)(hash := None)\<rparr>)"
    using r(1) assms(8) unfolding s0 job_def
    by (intro downloadBlob_admitted) simp_all
  have g: "GetBlob E c hash s =
      (Inl (Wrapf ''downloading blob %q: %w'' [hash] (Wrapf ''uploading to GCS: %w'' [] e')),
       s3\<lparr>jobs := (jobs s3)(hash := None)\<rparr>)"
    using assms(6,7) b
    by (simp add: GetBlob_def Let_def os_Open_def os_IsNotExist_def localPath_def)
  from r b g show ?thesis by (simp add: job_def)
qed

theorem upload_failure_fails_request_witness:
  "fst (GetBlob env_upload_fail cache0 gemma_hash empty_state) =
     Inl (Wrapf ''downloading blob %q: %w'' [gemma_hash]
           (Wrapf ''uploading to GCS: %w'' []
             (Wrapf ''uploading to GCS: %w'' [] (Other ''quota exceeded''))))
   \<and> files (snd (GetBlob env_upload_fail cache0 gemma_hash empty_state))
       (filepath_Join (BaseDir cache0) gemma_hash) = Some ''abc''"
proof -
  let ?lp = "filepath_Join (BaseDir cache0) gemma_hash"
  let ?job = "\<lparr>Hash = gemma_hash, DestinationPath = ?lp\<rparr>"
  let ?s0 = "(tick (OsOpen ?lp) empty_state)\<lparr>jobs := (jobs empty_state)(gemma_hash \<mapsto> ?job)\<rparr>"
  let ?s1 = "snd (gcsStore_Download env_upload_fail (gcsStore cache0) gemma_hash ?lp ?s0)"
  let ?s2 = "snd (downloadFromSource env_upload_fail ?job gemma_url ?s1)"
  have h: "files empty_state ?lp = None"
    "fault env_upload_fail (now empty_state) (OsOpen ?lp) = None"
    "jobs empty_state gemma_hash = None"
    "fst (gcsStore_Download env_upload_fail (gcsStore cache0) gemma_hash ?lp ?s0) =
       Some (Wrapf ''opening object from GCS %q: %w'' [gcsURL (gcsStore cache0) gemma_hash]
              ErrObjectNotExist)"
    "errors_Is (Wrapf ''opening object from GCS %q: %w'' [gcsURL (gcsStore cache0) gemma_hash]
              ErrObjectNotExist) ErrObjectNotExist"
    "SourceForBlob gemma_hash = Inr gemma_url"
    "fst (downloadFromSource env_upload_fail ?job gemma_url ?s1) = None"
    "fst (gcsStore_Upload env_upload_fail (gcsStore cache0) ?lp gemma_hash ?s2) =
       Some (Wrapf ''uploading to GCS: %w'' [] (Other ''quota exceeded''))"
    by code_simp+
  from upload_failure_fails_request [OF h] show ?thesis
    by (simp add: env_upload_fail_def env_ok_def)
qed

subsection \<open>Retries\<close>



lemma deferred_trace [simp]:
  "trace (deferred_close E name s) = trace s @ [FileClose name]"
  "trace (deferred_remove E name s) = trace s @ [OsRemove name]"
  by (auto simp: deferred_close_def deferred_remove_def file_Close_def os_Remove_def
      split: option.splits)









end
